theory Spec2Isabelle
  imports Main "HOL-Library.Finite_Map"
begin

section \<open>The OpenTelemetry provider initializer of eino-ext\<close>

text \<open>
  A shallow embedding of \<^verbatim>\<open>libs/acl/opentelemetry/provider.go\<close>: the handle pair
  \<^verbatim>\<open>OtelProvider\<close>, its method \<^verbatim>\<open>Shutdown\<close>, the constructor
  \<^verbatim>\<open>NewOpenTelemetryProvider\<close> and the helper \<^verbatim>\<open>newResource\<close>.

  The Go file is glue around the OpenTelemetry SDK. The SDK's builders that only assemble
  a value (options, clients, processors, readers, providers) are datatype constructors
  here, so that a built object shows what it was built from. The SDK calls whose outcome
  the Go code inspects or that act on the outside world (\<^verbatim>\<open>resource.New\<close>,
  \<^verbatim>\<open>resource.Default\<close>, \<^verbatim>\<open>otlptrace.New\<close>, \<^verbatim>\<open>otlpmetricgrpc.New\<close>, the two
  provider \<^verbatim>\<open>Shutdown\<close> methods, \<^verbatim>\<open>otel.Handle\<close>) are effects: each one appends an
  event to a history of external calls, and its outcome is given by a parameter record
  \<open>sdk\<close> of functions that may depend on the whole history so far. A Go pointer is an
  \<open>option\<close> (\<open>None\<close> is \<^verbatim>\<open>nil\<close>), a Go \<^verbatim>\<open>error\<close> result is an \<open>error option\<close>.
\<close>

subsection \<open>Values of the SDK\<close>

text \<open>A non-nil Go \<^verbatim>\<open>error\<close>; \<open>Error\<close> is its method \<^verbatim>\<open>Error()\<close>.\<close>

datatype error = errorString (Error: string)

text \<open>
  \<^verbatim>\<open>fmt.Errorf(prefix + "%v", err)\<close>: the verb \<^verbatim>\<open>%v\<close> prints an error by its
  \<^verbatim>\<open>Error()\<close> text. Both format strings of the file have this shape.
\<close>

definition fmt_Errorf :: "string \<Rightarrow> error \<Rightarrow> error" where
  "fmt_Errorf prefix err = errorString (prefix @ Error err)"

text \<open>
  \<^verbatim>\<open>context.Context\<close>: the two contexts the file makes itself, and the contexts a
  caller of \<^verbatim>\<open>Shutdown\<close> may pass.
\<close>

datatype context_Context = context_TODO | context_Background | context_Caller nat

text \<open>\<^verbatim>\<open>time.Duration\<close> counts nanoseconds.\<close>

definition time_Second :: int where
  "time_Second = 1000000000"

datatype sdktrace_Sampler = Sampler string

datatype resource_Detector = Detector string

datatype attribute_KeyValue = KeyValue string string

datatype resource_Resource = Resource "attribute_KeyValue list"

datatype resource_Option =
    resource_WithHost
  | resource_WithFromEnv
  | resource_WithProcessPID
  | resource_WithTelemetrySDK
  | resource_WithDetectors "resource_Detector list"
  | resource_WithAttributes "attribute_KeyValue list"

text \<open>
  The credentials of grpc-go and the \<^verbatim>\<open>tls.Config\<close> of Go's \<^verbatim>\<open>crypto/tls\<close> they wrap;
  both are libraries outside this repository, modelled by what their documentation
  says. Of \<^verbatim>\<open>tls.Config\<close> the three fields that decide how a client checks the server's
  certificate: \<^verbatim>\<open>RootCAs\<close> are the authorities it verifies against (the host's root set
  when nil), \<^verbatim>\<open>ServerName\<close> the name it verifies, and \<^verbatim>\<open>InsecureSkipVerify\<close> switches
  the verification of chain and name off; the zero value of the last is false.
\<close>

record tls_Config =
  ServerName :: string
  RootCAs :: "string list option"
  InsecureSkipVerify :: bool

datatype credentials_TransportCredentials = credentials_NewTLS (tls_config: tls_Config)

text \<open>
  \<^verbatim>\<open>credentials.NewClientTLSFromCert(cp, serverNameOverride)\<close> is
  \<^verbatim>\<open>NewTLS(&tls.Config{ServerName: serverNameOverride, RootCAs: cp})\<close>: credentials that
  verify the server against the pool \<^verbatim>\<open>cp\<close>.
\<close>

definition credentials_NewClientTLSFromCert ::
  "string list option \<Rightarrow> string \<Rightarrow> credentials_TransportCredentials" where
  "credentials_NewClientTLSFromCert cp serverNameOverride =
     credentials_NewTLS
       \<lparr>ServerName = serverNameOverride, RootCAs = cp, InsecureSkipVerify = False\<rparr>"

datatype otlptracegrpc_Option =
    otlptracegrpc_WithEndpoint string
  | otlptracegrpc_WithHeaders "(string, string) fmap"
  | otlptracegrpc_WithInsecure
  | otlptracegrpc_WithTLSCredentials credentials_TransportCredentials

datatype otlpmetricgrpc_Option =
    otlpmetricgrpc_WithEndpoint string
  | otlpmetricgrpc_WithHeaders "(string, string) fmap"
  | otlpmetricgrpc_WithInsecure
  | otlpmetricgrpc_WithTLSCredentials credentials_TransportCredentials

datatype otlptrace_Client = otlptracegrpc_NewClient "otlptracegrpc_Option list"

datatype otlptrace_Exporter = TraceExporter otlptrace_Client

datatype otlpmetricgrpc_Exporter = MetricExporter "otlpmetricgrpc_Option list"

datatype sdktrace_SpanProcessor =
  sdktrace_NewBatchSpanProcessor "otlptrace_Exporter option"

datatype sdktrace_TracerProviderOption =
    sdktrace_WithSampler sdktrace_Sampler
  | sdktrace_WithResource "resource_Resource option"
  | sdktrace_WithSpanProcessor sdktrace_SpanProcessor

datatype sdktrace_TracerProvider =
  sdktrace_NewTracerProvider "sdktrace_TracerProviderOption list"

datatype metric_PeriodicReaderOption = metric_WithInterval int

datatype metric_Reader =
  metric_NewPeriodicReader "otlpmetricgrpc_Exporter option" "metric_PeriodicReaderOption list"

datatype metric_Option =
    metric_WithReader metric_Reader
  | metric_WithResource "resource_Resource option"

datatype metric_MeterProvider = metric_NewMeterProvider "metric_Option list"

text \<open>The number of keys of a Go map, \<^verbatim>\<open>len(m)\<close>; a nil map has none.\<close>

definition len_map :: "(string, string) fmap \<Rightarrow> nat" where
  "len_map m = fcard (fmdom m)"

subsection \<open>The handle pair and the configuration\<close>

record OtelProvider =
  TracerProvider :: "sdktrace_TracerProvider option"
  MeterProvider :: "metric_MeterProvider option"

text \<open>
  The struct \<^verbatim>\<open>config\<close> is declared in another file of the package; its fields are
  the ones \<^verbatim>\<open>provider.go\<close> reads, with the types of their uses there.
\<close>

record config =
  enableTracing :: bool
  enableMetrics :: bool
  exportEndpoint :: string
  exportHeaders :: "(string, string) fmap"
  exportInsecure :: bool
  exportTLSInsecure :: bool
  sampler :: sdktrace_Sampler
  resource :: "resource_Resource option"
  resourceDetectors :: "resource_Detector list"
  resourceAttributes :: "attribute_KeyValue list"
  sdkTracerProvider :: "sdktrace_TracerProvider option"
  meterProvider :: "metric_MeterProvider option"

subsection \<open>External calls and their history\<close>

text \<open>One event per external call, with its arguments and what it returned.\<close>

datatype event =
    Call_resource_New context_Context "resource_Option list"
      "resource_Resource option" "error option"
  | Call_resource_Default "resource_Resource option"
  | Call_otlptrace_New context_Context otlptrace_Client
      "otlptrace_Exporter option" "error option"
  | Call_otlpmetricgrpc_New context_Context "otlpmetricgrpc_Option list"
      "otlpmetricgrpc_Exporter option" "error option"
  | Call_TracerProvider_Shutdown sdktrace_TracerProvider context_Context "error option"
  | Call_MeterProvider_Shutdown metric_MeterProvider context_Context "error option"
  | Call_otel_Handle error

type_synonym history = "event list"

text \<open>
  What the SDK answers. Every function sees the history of the calls made before it, so
  an answer may depend on anything that happened earlier.
\<close>

record sdk =
  resource_New :: "history \<Rightarrow> context_Context \<Rightarrow> resource_Option list
    \<Rightarrow> resource_Resource option \<times> error option"
  resource_Default :: "history \<Rightarrow> resource_Resource option"
  otlptrace_New :: "history \<Rightarrow> context_Context \<Rightarrow> otlptrace_Client
    \<Rightarrow> otlptrace_Exporter option \<times> error option"
  otlpmetricgrpc_New :: "history \<Rightarrow> context_Context \<Rightarrow> otlpmetricgrpc_Option list
    \<Rightarrow> otlpmetricgrpc_Exporter option \<times> error option"
  TracerProvider_Shutdown :: "history \<Rightarrow> sdktrace_TracerProvider \<Rightarrow> context_Context
    \<Rightarrow> error option"
  MeterProvider_Shutdown :: "history \<Rightarrow> metric_MeterProvider \<Rightarrow> context_Context
    \<Rightarrow> error option"

definition call_resource_New ::
  "sdk \<Rightarrow> context_Context \<Rightarrow> resource_Option list \<Rightarrow> history
    \<Rightarrow> (resource_Resource option \<times> error option) \<times> history" where
  "call_resource_New k ctx ros h =
     (let r = resource_New k h ctx ros
      in (r, h @ [Call_resource_New ctx ros (fst r) (snd r)]))"

definition call_resource_Default ::
  "sdk \<Rightarrow> history \<Rightarrow> resource_Resource option \<times> history" where
  "call_resource_Default k h =
     (let r = resource_Default k h in (r, h @ [Call_resource_Default r]))"

definition call_otlptrace_New ::
  "sdk \<Rightarrow> context_Context \<Rightarrow> otlptrace_Client \<Rightarrow> history
    \<Rightarrow> (otlptrace_Exporter option \<times> error option) \<times> history" where
  "call_otlptrace_New k ctx client h =
     (let r = otlptrace_New k h ctx client
      in (r, h @ [Call_otlptrace_New ctx client (fst r) (snd r)]))"

definition call_otlpmetricgrpc_New ::
  "sdk \<Rightarrow> context_Context \<Rightarrow> otlpmetricgrpc_Option list \<Rightarrow> history
    \<Rightarrow> (otlpmetricgrpc_Exporter option \<times> error option) \<times> history" where
  "call_otlpmetricgrpc_New k ctx mos h =
     (let r = otlpmetricgrpc_New k h ctx mos
      in (r, h @ [Call_otlpmetricgrpc_New ctx mos (fst r) (snd r)]))"

definition call_TracerProvider_Shutdown ::
  "sdk \<Rightarrow> sdktrace_TracerProvider \<Rightarrow> context_Context \<Rightarrow> history
    \<Rightarrow> error option \<times> history" where
  "call_TracerProvider_Shutdown k tp ctx h =
     (let r = TracerProvider_Shutdown k h tp ctx
      in (r, h @ [Call_TracerProvider_Shutdown tp ctx r]))"

definition call_MeterProvider_Shutdown ::
  "sdk \<Rightarrow> metric_MeterProvider \<Rightarrow> context_Context \<Rightarrow> history
    \<Rightarrow> error option \<times> history" where
  "call_MeterProvider_Shutdown k mp ctx h =
     (let r = MeterProvider_Shutdown k h mp ctx
      in (r, h @ [Call_MeterProvider_Shutdown mp ctx r]))"

text \<open>\<^verbatim>\<open>otel.Handle(err)\<close> hands the error to the process-wide handler and returns nothing.\<close>

definition otel_Handle :: "error \<Rightarrow> history \<Rightarrow> history" where
  "otel_Handle err h = h @ [Call_otel_Handle err]"

text \<open>The events that are a provider's \<^verbatim>\<open>Shutdown\<close>.\<close>

fun is_provider_shutdown :: "event \<Rightarrow> bool" where
  "is_provider_shutdown (Call_TracerProvider_Shutdown tp ctx r) = True"
| "is_provider_shutdown (Call_MeterProvider_Shutdown mp ctx r) = True"
| "is_provider_shutdown ev = False"

subsection \<open>\<^verbatim>\<open>OtelProvider.Shutdown\<close>\<close>

text \<open>
  The receiver is the struct a non-nil \<^verbatim>\<open>*OtelProvider\<close> points to. The one variable
  \<^verbatim>\<open>err\<close> is assigned by each shutdown that runs, and returned at the end.
\<close>

definition Shutdown ::
  "sdk \<Rightarrow> OtelProvider \<Rightarrow> context_Context \<Rightarrow> history \<Rightarrow> error option \<times> history" where
  "Shutdown k p ctx h0 =
     (let err0 = None;
          (err1, h1) =
            (case TracerProvider p of
               None \<Rightarrow> (err0, h0)
             | Some tp \<Rightarrow>
                 (let (err, h) = call_TracerProvider_Shutdown k tp ctx h0
                  in case err of
                       None \<Rightarrow> (err, h)
                     | Some e \<Rightarrow> (err, otel_Handle e h)));
          (err2, h2) =
            (case MeterProvider p of
               None \<Rightarrow> (err1, h1)
             | Some mp \<Rightarrow>
                 (let (err, h) = call_MeterProvider_Shutdown k mp ctx h1
                  in case err of
                       None \<Rightarrow> (err, h)
                     | Some e \<Rightarrow> (err, otel_Handle e h)))
      in (err2, h2))"

subsection \<open>\<^verbatim>\<open>newResource\<close>\<close>

definition newResource :: "sdk \<Rightarrow> config \<Rightarrow> history \<Rightarrow> resource_Resource option \<times> history" where
  "newResource k cfg h =
     (if resource cfg \<noteq> None then (resource cfg, h)
      else
        (let ((res, err), h1) =
               call_resource_New k context_Background
                 [resource_WithHost,
                  resource_WithFromEnv,
                  resource_WithProcessPID,
                  resource_WithTelemetrySDK,
                  resource_WithDetectors (resourceDetectors cfg),
                  resource_WithAttributes (resourceAttributes cfg)] h
         in if err \<noteq> None then call_resource_Default k h1
            else (res, h1)))"

subsection \<open>\<^verbatim>\<open>NewOpenTelemetryProvider\<close>\<close>

text \<open>
  The local \<^verbatim>\<open>traceClientOpts\<close> at the end of lines 78 to 89, and
  \<^verbatim>\<open>metricsClientOpts\<close> at the end of lines 116 to 127: each \<^verbatim>\<open>append\<close> adds at the
  end.
\<close>

definition traceClientOpts :: "config \<Rightarrow> otlptracegrpc_Option list" where
  "traceClientOpts cfg =
     (let os0 = [];
          os1 = (if exportEndpoint cfg \<noteq> ''''
                 then os0 @ [otlptracegrpc_WithEndpoint (exportEndpoint cfg)] else os0);
          os2 = (if len_map (exportHeaders cfg) > 0
                 then os1 @ [otlptracegrpc_WithHeaders (exportHeaders cfg)] else os1);
          os3 = (if exportInsecure cfg
                 then os2 @ [otlptracegrpc_WithInsecure]
                 else if exportTLSInsecure cfg
                 then os2 @ [otlptracegrpc_WithTLSCredentials
                               (credentials_NewClientTLSFromCert None '''')]
                 else os2)
      in os3)"

definition metricsClientOpts :: "config \<Rightarrow> otlpmetricgrpc_Option list" where
  "metricsClientOpts cfg =
     (let os0 = [];
          os1 = (if exportEndpoint cfg \<noteq> ''''
                 then os0 @ [otlpmetricgrpc_WithEndpoint (exportEndpoint cfg)] else os0);
          os2 = (if len_map (exportHeaders cfg) > 0
                 then os1 @ [otlpmetricgrpc_WithHeaders (exportHeaders cfg)] else os1);
          os3 = (if exportInsecure cfg
                 then os2 @ [otlpmetricgrpc_WithInsecure]
                 else if exportTLSInsecure cfg
                 then os2 @ [otlpmetricgrpc_WithTLSCredentials
                               (credentials_NewClientTLSFromCert None '''')]
                 else os2)
      in os3)"

text \<open>
  The block \<^verbatim>\<open>if cfg.enableTracing { ... }\<close>, lines 76 to 110. \<open>Inl\<close> is the early
  return of line 99 with its error, \<open>Inr\<close> the value of \<^verbatim>\<open>tracerProvider\<close> when the
  block is left at its end.
\<close>

definition tracing_block ::
  "sdk \<Rightarrow> config \<Rightarrow> context_Context \<Rightarrow> resource_Resource option \<Rightarrow> history
    \<Rightarrow> (error + sdktrace_TracerProvider option) \<times> history" where
  "tracing_block k cfg ctx res h =
     (let tracerProvider = None
      in if enableTracing cfg then
           (let tracerProvider = sdkTracerProvider cfg
            in if tracerProvider = None then
                 (let traceClient = otlptracegrpc_NewClient (traceClientOpts cfg);
                      ((traceExp, err), h1) = call_otlptrace_New k ctx traceClient h
                  in case err of
                       Some e \<Rightarrow>
                         (Inl (fmt_Errorf ''failed to create otlp trace exporter: '' e), h1)
                     | None \<Rightarrow>
                         (let bsp = sdktrace_NewBatchSpanProcessor traceExp;
                              tracerProvider =
                                Some (sdktrace_NewTracerProvider
                                  [sdktrace_WithSampler (sampler cfg),
                                   sdktrace_WithResource res,
                                   sdktrace_WithSpanProcessor bsp])
                          in (Inr tracerProvider, h1)))
               else (Inr tracerProvider, h))
         else (Inr tracerProvider, h))"

text \<open>
  The block \<^verbatim>\<open>if cfg.enableMetrics { ... }\<close>, lines 113 to 141, in the same way; the
  early return is line 134. The local \<^verbatim>\<open>meterProvider\<close> is written \<open>meterProvider'\<close>,
  the name without the prime being the field of \<open>config\<close>.
\<close>

definition metrics_block ::
  "sdk \<Rightarrow> config \<Rightarrow> resource_Resource option \<Rightarrow> history
    \<Rightarrow> (error + metric_MeterProvider option) \<times> history" where
  "metrics_block k cfg res h =
     (let meterProvider' = None
      in if enableMetrics cfg then
           (let meterProvider' = meterProvider cfg
            in if meterProvider' = None then
                 (let ((metricExp, err), h1) =
                        call_otlpmetricgrpc_New k context_Background (metricsClientOpts cfg) h
                  in case err of
                       Some e \<Rightarrow>
                         (Inl (fmt_Errorf ''failed to create otlp metric exporter: '' e), h1)
                     | None \<Rightarrow>
                         (let reader = metric_WithReader
                                (metric_NewPeriodicReader metricExp
                                   [metric_WithInterval (15 * time_Second)]);
                              meterProvider' =
                                Some (metric_NewMeterProvider [reader, metric_WithResource res])
                          in (Inr meterProvider', h1)))
               else (Inr meterProvider', h))
         else (Inr meterProvider', h))"

text \<open>
  \<^verbatim>\<open>newConfig\<close> and the type \<^verbatim>\<open>Option\<close> are declared in another file of the package:
  the function is a parameter here, and the options are of any type. The result is the
  pair the Go function returns, a pointer to the handle pair and an error, with the
  history after the call.
\<close>

definition NewOpenTelemetryProvider ::
  "sdk \<Rightarrow> ('opt list \<Rightarrow> config) \<Rightarrow> 'opt list \<Rightarrow> history
    \<Rightarrow> (OtelProvider option \<times> error option) \<times> history" where
  "NewOpenTelemetryProvider k newConfig opts h =
     (let ctx = context_TODO;
          cfg = newConfig opts
      in if \<not> enableTracing cfg \<and> \<not> enableMetrics cfg then ((None, None), h)
         else
           (let (res, h1) = newResource k cfg h
            in case tracing_block k cfg ctx res h1 of
                 (Inl e, h2) \<Rightarrow> ((None, Some e), h2)
               | (Inr tracerProvider, h2) \<Rightarrow>
                   (case metrics_block k cfg res h2 of
                      (Inl e, h3) \<Rightarrow> ((None, Some e), h3)
                    | (Inr meterProvider', h3) \<Rightarrow>
                        ((Some \<lparr>TracerProvider = tracerProvider,
                                 MeterProvider = meterProvider'\<rparr>, None), h3))))"


subsection \<open>Vocabulary for the statements\<close>

text \<open>The options \<^verbatim>\<open>newResource\<close> passes to \<^verbatim>\<open>resource.New\<close>, lines 156 to 161.\<close>

abbreviation detect_opts :: "config \<Rightarrow> resource_Option list" where
  "detect_opts cfg \<equiv>
     [resource_WithHost, resource_WithFromEnv, resource_WithProcessPID,
      resource_WithTelemetrySDK, resource_WithDetectors (resourceDetectors cfg),
      resource_WithAttributes (resourceAttributes cfg)]"

text \<open>The events that are a call of the resource package.\<close>

fun is_resource_event :: "event \<Rightarrow> bool" where
  "is_resource_event (Call_resource_New ctx ros res err) = True"
| "is_resource_event (Call_resource_Default res) = True"
| "is_resource_event ev = False"



text \<open>What a shutdown result adds to the history after the shutdown itself.\<close>

definition handled :: "error option \<Rightarrow> history" where
  "handled r = (case r of None \<Rightarrow> [] | Some e \<Rightarrow> [Call_otel_Handle e])"

text \<open>
  The ways the tracing block ends without an error: its value \<open>tpo\<close> of
  \<^verbatim>\<open>tracerProvider\<close> and the events \<open>tevs\<close> it added. Likewise for the metrics block.
\<close>

definition tracing_done ::
  "config \<Rightarrow> resource_Resource option \<Rightarrow> sdktrace_TracerProvider option \<Rightarrow> history \<Rightarrow> bool" where
  "tracing_done cfg res tpo tevs =
     (if \<not> enableTracing cfg then tpo = None \<and> tevs = []
      else if sdkTracerProvider cfg \<noteq> None then tpo = sdkTracerProvider cfg \<and> tevs = []
      else (\<exists>x. tpo = Some (sdktrace_NewTracerProvider
                    [sdktrace_WithSampler (sampler cfg), sdktrace_WithResource res,
                     sdktrace_WithSpanProcessor (sdktrace_NewBatchSpanProcessor x)]) \<and>
                tevs = [Call_otlptrace_New context_TODO
                          (otlptracegrpc_NewClient (traceClientOpts cfg)) x None]))"

definition metrics_done ::
  "config \<Rightarrow> resource_Resource option \<Rightarrow> metric_MeterProvider option \<Rightarrow> history \<Rightarrow> bool" where
  "metrics_done cfg res mpo mevs =
     (if \<not> enableMetrics cfg then mpo = None \<and> mevs = []
      else if meterProvider cfg \<noteq> None then mpo = meterProvider cfg \<and> mevs = []
      else (\<exists>y. mpo = Some (metric_NewMeterProvider
                    [metric_WithReader (metric_NewPeriodicReader y
                       [metric_WithInterval (15 * time_Second)]),
                     metric_WithResource res]) \<and>
                mevs = [Call_otlpmetricgrpc_New context_Background
                          (metricsClientOpts cfg) y None]))"

subsection \<open>Example inputs\<close>

definition tp_ex :: sdktrace_TracerProvider where
  "tp_ex = sdktrace_NewTracerProvider [sdktrace_WithSampler (Sampler ''always_on'')]"

definition mp_ex :: metric_MeterProvider where
  "mp_ex = metric_NewMeterProvider []"

text \<open>An SDK in which every call succeeds.\<close>

definition sdk_ok :: sdk where
  "sdk_ok =
     \<lparr>resource_New = (\<lambda>h ctx ros. (Some (Resource [KeyValue ''host.name'' ''h1'']), None)),
      resource_Default = (\<lambda>h. Some (Resource [KeyValue ''service.name'' ''unknown_service''])),
      otlptrace_New = (\<lambda>h ctx c. (Some (TraceExporter c), None)),
      otlpmetricgrpc_New = (\<lambda>h ctx mos. (Some (MetricExporter mos), None)),
      TracerProvider_Shutdown = (\<lambda>h tp ctx. None),
      MeterProvider_Shutdown = (\<lambda>h mp ctx. None)\<rparr>"

text \<open>The trace provider's shutdown fails, the meter provider's succeeds.\<close>

definition sdk_trace_shutdown_fails :: sdk where
  "sdk_trace_shutdown_fails =
     sdk_ok\<lparr>TracerProvider_Shutdown :=
       (\<lambda>h tp ctx. Some (errorString ''trace shutdown failed''))\<rparr>"

text \<open>Both exporter constructors fail.\<close>

definition sdk_exporters_fail :: sdk where
  "sdk_exporters_fail =
     sdk_ok\<lparr>otlptrace_New := (\<lambda>h ctx c. (None, Some (errorString ''bad endpoint''))),
            otlpmetricgrpc_New := (\<lambda>h ctx mos. (None, Some (errorString ''bad endpoint'')))\<rparr>"

text \<open>Only the metric exporter's constructor fails.\<close>

definition sdk_metric_exporter_fails :: sdk where
  "sdk_metric_exporter_fails =
     sdk_ok\<lparr>otlpmetricgrpc_New := (\<lambda>h ctx mos. (None, Some (errorString ''bad endpoint'')))\<rparr>"

text \<open>Resource detection fails.\<close>

definition sdk_detect_fails :: sdk where
  "sdk_detect_fails =
     sdk_ok\<lparr>resource_New := (\<lambda>h ctx ros. (None, Some (errorString ''detector failed'')))\<rparr>"

definition cfg_ex :: config where
  "cfg_ex =
     \<lparr>enableTracing = True, enableMetrics = True,
      exportEndpoint = ''localhost:4317'', exportHeaders = fmempty,
      exportInsecure = True, exportTLSInsecure = True,
      sampler = Sampler ''always_on'', resource = None,
      resourceDetectors = [], resourceAttributes = [KeyValue ''service.name'' ''eino''],
      sdkTracerProvider = None, meterProvider = None\<rparr>"

text \<open>The same with exportInsecure off, so that exportTLSInsecure decides.\<close>

definition cfg_tls :: config where
  "cfg_tls = cfg_ex\<lparr>exportInsecure := False\<rparr>"

text \<open>The same with an override trace provider.\<close>

definition cfg_override :: config where
  "cfg_override = cfg_ex\<lparr>sdkTracerProvider := Some tp_ex\<rparr>"

text \<open>An option resolver that yields the given configuration for every list of options.\<close>

definition newConfig_fixed :: "config \<Rightarrow> unit list \<Rightarrow> config" where
  "newConfig_fixed cfg opts = cfg"

section \<open>Properties\<close>

subsection \<open>The blocks, case by case\<close>

lemma Shutdown_trace_only:
  "TracerProvider p = Some tp \<Longrightarrow> MeterProvider p = None \<Longrightarrow>
   Shutdown k p ctx h =
     (TracerProvider_Shutdown k h tp ctx,
      h @ Call_TracerProvider_Shutdown tp ctx (TracerProvider_Shutdown k h tp ctx)
          # handled (TracerProvider_Shutdown k h tp ctx))"
  by (simp add: Shutdown_def call_TracerProvider_Shutdown_def otel_Handle_def handled_def
      Let_def split: option.splits)

lemma Shutdown_both:
  "TracerProvider p = Some tp \<Longrightarrow> MeterProvider p = Some mp \<Longrightarrow>
   Shutdown k p ctx h =
     (let r1 = TracerProvider_Shutdown k h tp ctx;
          h1 = h @ Call_TracerProvider_Shutdown tp ctx r1 # handled r1;
          r2 = MeterProvider_Shutdown k h1 mp ctx
      in (r2, h1 @ Call_MeterProvider_Shutdown mp ctx r2 # handled r2))"
  by (simp add: Shutdown_def call_TracerProvider_Shutdown_def call_MeterProvider_Shutdown_def
      otel_Handle_def handled_def Let_def split: option.splits)

lemma handled_no_shutdown: "filter is_provider_shutdown (handled r) = []"
  by (simp add: handled_def split: option.splits)

lemma newResource_cases:
  "(\<exists>r. resource cfg = Some r \<and> newResource k cfg h = (Some r, h)) \<or>
   (\<exists>res. resource cfg = None \<and>
      newResource k cfg h =
        (res, h @ [Call_resource_New context_Background (detect_opts cfg) res None])) \<or>
   (\<exists>res e d. resource cfg = None \<and>
      newResource k cfg h =
        (d, h @ [Call_resource_New context_Background (detect_opts cfg) res (Some e),
                 Call_resource_Default d]))"
  by (auto simp add: newResource_def call_resource_New_def call_resource_Default_def Let_def
      split: prod.splits option.splits)

lemma newResource_history:
  "\<exists>revs. snd (newResource k cfg h) = h @ revs \<and> (\<forall>ev \<in> set revs. is_resource_event ev)"
  using newResource_cases [of cfg k h] by auto

lemma resource_events_only:
  assumes "\<forall>ev \<in> set revs. is_resource_event ev"
  shows "Call_otlptrace_New ctx c x e \<notin> set revs"
    and "Call_otlpmetricgrpc_New ctx mos y e \<notin> set revs"
  using assms by force+

lemma tracing_block_cases:
  "(\<exists>x e. enableTracing cfg \<and> sdkTracerProvider cfg = None \<and>
      tracing_block k cfg context_TODO res h =
        (Inl (fmt_Errorf ''failed to create otlp trace exporter: '' e),
         h @ [Call_otlptrace_New context_TODO
                (otlptracegrpc_NewClient (traceClientOpts cfg)) x (Some e)])) \<or>
   (\<exists>tpo tevs. tracing_done cfg res tpo tevs \<and>
      tracing_block k cfg context_TODO res h = (Inr tpo, h @ tevs))"
  by (auto simp add: tracing_block_def tracing_done_def call_otlptrace_New_def Let_def
      split: prod.splits option.splits)

lemma metrics_block_cases:
  "(\<exists>y e. enableMetrics cfg \<and> meterProvider cfg = None \<and>
      metrics_block k cfg res h =
        (Inl (fmt_Errorf ''failed to create otlp metric exporter: '' e),
         h @ [Call_otlpmetricgrpc_New context_Background (metricsClientOpts cfg) y (Some e)])) \<or>
   (\<exists>mpo mevs. metrics_done cfg res mpo mevs \<and>
      metrics_block k cfg res h = (Inr mpo, h @ mevs))"
  by (auto simp add: metrics_block_def metrics_done_def call_otlpmetricgrpc_New_def Let_def
      split: prod.splits option.splits)

text \<open>
  A run of \<^verbatim>\<open>NewOpenTelemetryProvider\<close> with a toggle on ends in one of three ways: the
  trace exporter failed, the metric exporter failed, or a handle pair is returned.
\<close>

lemma run_cases [consumes 2, case_names trace_failed metric_failed succeeded]:
  assumes run: "NewOpenTelemetryProvider k newConfig opts h = ((p, err), h')"
    and on: "enableTracing (newConfig opts) \<or> enableMetrics (newConfig opts)"
  obtains
    (trace_failed) res revs x e where
      "newResource k (newConfig opts) h = (res, h @ revs)"
      "\<forall>ev \<in> set revs. is_resource_event ev"
      "enableTracing (newConfig opts)" "sdkTracerProvider (newConfig opts) = None"
      "p = None" "err = Some (fmt_Errorf ''failed to create otlp trace exporter: '' e)"
      "h' = h @ revs @ [Call_otlptrace_New context_TODO
             (otlptracegrpc_NewClient (traceClientOpts (newConfig opts))) x (Some e)]"
  | (metric_failed) res revs tpo tevs y e where
      "newResource k (newConfig opts) h = (res, h @ revs)"
      "\<forall>ev \<in> set revs. is_resource_event ev"
      "tracing_done (newConfig opts) res tpo tevs"
      "enableMetrics (newConfig opts)" "meterProvider (newConfig opts) = None"
      "p = None" "err = Some (fmt_Errorf ''failed to create otlp metric exporter: '' e)"
      "h' = h @ revs @ tevs @ [Call_otlpmetricgrpc_New context_Background
             (metricsClientOpts (newConfig opts)) y (Some e)]"
  | (succeeded) res revs tpo tevs mpo mevs where
      "newResource k (newConfig opts) h = (res, h @ revs)"
      "\<forall>ev \<in> set revs. is_resource_event ev"
      "tracing_done (newConfig opts) res tpo tevs"
      "metrics_done (newConfig opts) res mpo mevs"
      "p = Some \<lparr>TracerProvider = tpo, MeterProvider = mpo\<rparr>" "err = None"
      "h' = h @ revs @ tevs @ mevs"
proof -
  let ?cfg = "newConfig opts"
  obtain revs where r: "snd (newResource k ?cfg h) = h @ revs"
    "\<forall>ev \<in> set revs. is_resource_event ev"
    using newResource_history by blast
  obtain res where r': "newResource k ?cfg h = (res, h @ revs)"
    using r(1) by (cases "newResource k ?cfg h") simp
  have run': "(case tracing_block k ?cfg context_TODO res (h @ revs) of
                 (Inl e, h2) \<Rightarrow> ((None, Some e), h2)
               | (Inr tracerProvider, h2) \<Rightarrow>
                   (case metrics_block k ?cfg res h2 of
                      (Inl e, h3) \<Rightarrow> ((None, Some e), h3)
                    | (Inr mpo, h3) \<Rightarrow>
                        ((Some \<lparr>TracerProvider = tracerProvider, MeterProvider = mpo\<rparr>, None),
                         h3))) = ((p, err), h')"
    using run on r' by (auto simp add: NewOpenTelemetryProvider_def Let_def)
  from tracing_block_cases [of ?cfg k res "h @ revs"]
  consider (tfail) x e where "enableTracing ?cfg" "sdkTracerProvider ?cfg = None"
      "tracing_block k ?cfg context_TODO res (h @ revs) =
        (Inl (fmt_Errorf ''failed to create otlp trace exporter: '' e),
         (h @ revs) @ [Call_otlptrace_New context_TODO
                (otlptracegrpc_NewClient (traceClientOpts ?cfg)) x (Some e)])"
    | (tdone) tpo tevs where "tracing_done ?cfg res tpo tevs"
      "tracing_block k ?cfg context_TODO res (h @ revs) = (Inr tpo, (h @ revs) @ tevs)"
    by blast
  then show thesis
  proof cases
    case tfail
    from run' tfail(3) have "p = None"
      "err = Some (fmt_Errorf ''failed to create otlp trace exporter: '' e)"
      "h' = h @ revs @ [Call_otlptrace_New context_TODO
             (otlptracegrpc_NewClient (traceClientOpts ?cfg)) x (Some e)]"
      by simp_all
    with r' r(2) tfail(1,2) show thesis by (rule trace_failed)
  next
    case tdone
    from metrics_block_cases [of ?cfg k res "(h @ revs) @ tevs"]
    consider (mfail) y e where "enableMetrics ?cfg" "meterProvider ?cfg = None"
        "metrics_block k ?cfg res ((h @ revs) @ tevs) =
          (Inl (fmt_Errorf ''failed to create otlp metric exporter: '' e),
           ((h @ revs) @ tevs) @ [Call_otlpmetricgrpc_New context_Background
              (metricsClientOpts ?cfg) y (Some e)])"
      | (mdone) mpo mevs where "metrics_done ?cfg res mpo mevs"
        "metrics_block k ?cfg res ((h @ revs) @ tevs) = (Inr mpo, ((h @ revs) @ tevs) @ mevs)"
      by blast
    then show thesis
    proof cases
      case mfail
      from run' tdone(2) mfail(3) have "p = None"
        "err = Some (fmt_Errorf ''failed to create otlp metric exporter: '' e)"
        "h' = h @ revs @ tevs @ [Call_otlpmetricgrpc_New context_Background
               (metricsClientOpts ?cfg) y (Some e)]"
        by simp_all
      with r' r(2) tdone(1) mfail(1,2) show thesis by (rule metric_failed)
    next
      case mdone
      from run' tdone(2) mdone(2) have
        "p = Some \<lparr>TracerProvider = tpo, MeterProvider = mpo\<rparr>" "err = None"
        "h' = h @ revs @ tevs @ mevs"
        by simp_all
      with r' r(2) tdone(1) mdone(1) show thesis by (rule succeeded)
    qed
  qed
qed

lemma tracing_done_events:
  assumes "tracing_done cfg res tpo tevs"
  shows "Call_otlpmetricgrpc_New ctx mos y e \<notin> set tevs"
    and "Call_resource_New ctx ros r e \<notin> set tevs"
    and "Call_otlptrace_New ctx c x (Some e') \<notin> set tevs"
    and "Call_otlptrace_New ctx c x e \<in> set tevs
           \<Longrightarrow> c = otlptracegrpc_NewClient (traceClientOpts cfg)"
    and "sdkTracerProvider cfg \<noteq> None \<Longrightarrow> tevs = []"
  using assms by (auto simp add: tracing_done_def split: if_splits)

lemma metrics_done_events:
  assumes "metrics_done cfg res mpo mevs"
  shows "Call_otlptrace_New ctx c x e \<notin> set mevs"
    and "Call_resource_New ctx ros r e \<notin> set mevs"
    and "Call_otlpmetricgrpc_New ctx mos y (Some e') \<notin> set mevs"
    and "Call_otlpmetricgrpc_New ctx mos y e \<in> set mevs \<Longrightarrow> mos = metricsClientOpts cfg"
  using assms by (auto simp add: metrics_done_def split: if_splits)





lemmas model_defs =
  NewOpenTelemetryProvider_def newResource_def tracing_block_def metrics_block_def
  traceClientOpts_def metricsClientOpts_def call_resource_New_def call_resource_Default_def
  call_otlptrace_New_def call_otlpmetricgrpc_New_def fmt_Errorf_def len_map_def Let_def

lemmas shutdown_defs =
  Shutdown_def call_TracerProvider_Shutdown_def call_MeterProvider_Shutdown_def
  otel_Handle_def Let_def

lemmas example_defs =
  sdk_ok_def sdk_trace_shutdown_fails_def sdk_exporters_fail_def
  sdk_metric_exporter_fails_def sdk_detect_fails_def cfg_ex_def cfg_tls_def cfg_override_def
  newConfig_fixed_def tp_ex_def mp_ex_def

subsection \<open>Shutdown\<close>

text \<open>
  C1. The claim: shutdown reports each provider-shutdown failure to the process-wide error
  handler rather than aborting, and returns the last encountered error; in particular, when
  the trace provider's shutdown fails and the metrics provider's shutdown succeeds, the
  returned error is the trace shutdown error.

  The code at such an input, with both providers set: the trace failure is handed to the
  handler and the meter provider is shut down as well, but the value returned is nil. The
  meter provider's shutdown assigns its own result to the one variable \<^verbatim>\<open>err\<close>, line 49,
  and so replaces the trace error of line 43.
\<close>

theorem Shutdown_loses_trace_error:
  "Shutdown sdk_trace_shutdown_fails
     \<lparr>TracerProvider = Some tp_ex, MeterProvider = Some mp_ex\<rparr> context_Background [] =
   (None,
    [Call_TracerProvider_Shutdown tp_ex context_Background
       (Some (errorString ''trace shutdown failed'')),
     Call_otel_Handle (errorString ''trace shutdown failed''),
     Call_MeterProvider_Shutdown mp_ex context_Background None])"
  by (simp add: shutdown_defs sdk_trace_shutdown_fails_def sdk_ok_def)

text \<open>
  C6. For every handle pair whose metrics provider is nil and whose trace provider is not,
  shutdown makes exactly one provider shutdown call, the trace provider's; no call of a
  meter provider's shutdown is in the history; and when that trace shutdown succeeds the
  result is nil and the history has grown by that one call only.
\<close>

theorem Shutdown_trace_provider_only:
  assumes "TracerProvider p = Some tp" and "MeterProvider p = None"
  shows "filter is_provider_shutdown (drop (length h) (snd (Shutdown k p ctx h))) =
           [Call_TracerProvider_Shutdown tp ctx (TracerProvider_Shutdown k h tp ctx)] \<and>
         Call_MeterProvider_Shutdown mp ctx' r \<notin> set (drop (length h) (snd (Shutdown k p ctx h))) \<and>
         (TracerProvider_Shutdown k h tp ctx = None \<longrightarrow>
            Shutdown k p ctx h = (None, h @ [Call_TracerProvider_Shutdown tp ctx None]))"
  using assms
  by (auto simp add: Shutdown_trace_only handled_no_shutdown handled_def split: option.splits)

theorem Shutdown_trace_provider_only_witness:
  "filter is_provider_shutdown
     (drop (length [Call_otel_Handle (errorString ''earlier'')])
        (snd (Shutdown sdk_ok \<lparr>TracerProvider = Some tp_ex, MeterProvider = None\<rparr>
                (context_Caller 1) [Call_otel_Handle (errorString ''earlier'')]))) =
     [Call_TracerProvider_Shutdown tp_ex (context_Caller 1) None] \<and>
   Shutdown sdk_ok \<lparr>TracerProvider = Some tp_ex, MeterProvider = None\<rparr>
     (context_Caller 1) [Call_otel_Handle (errorString ''earlier'')] =
     (None, [Call_otel_Handle (errorString ''earlier''),
             Call_TracerProvider_Shutdown tp_ex (context_Caller 1) None])"
proof -
  let ?p = "\<lparr>TracerProvider = Some tp_ex, MeterProvider = None\<rparr>"
  let ?h = "[Call_otel_Handle (errorString ''earlier'')]"
  have a: "TracerProvider ?p = Some tp_ex" and b: "MeterProvider ?p = None"
    by simp_all
  have c: "TracerProvider_Shutdown sdk_ok ?h tp_ex (context_Caller 1) = None"
    by (simp add: sdk_ok_def)
  from Shutdown_trace_provider_only [OF a b, of ?h sdk_ok "context_Caller 1"] c
  show ?thesis by simp
qed

text \<open>
  C7. For every handle pair in which both providers are set, the provider shutdown calls
  shutdown makes are the trace provider's and then the meter provider's, whatever the
  trace provider's shutdown returns: a failure of the first does not keep the second from
  being called.
\<close>

theorem Shutdown_attempts_both_in_order:
  assumes "TracerProvider p = Some tp" and "MeterProvider p = Some mp"
  shows "filter is_provider_shutdown (drop (length h) (snd (Shutdown k p ctx h))) =
           (let r1 = TracerProvider_Shutdown k h tp ctx;
                h1 = h @ Call_TracerProvider_Shutdown tp ctx r1 # handled r1
            in [Call_TracerProvider_Shutdown tp ctx r1,
                Call_MeterProvider_Shutdown mp ctx (MeterProvider_Shutdown k h1 mp ctx)])"
  using assms by (simp add: Shutdown_both handled_no_shutdown Let_def)

theorem Shutdown_attempts_both_in_order_witness:
  "filter is_provider_shutdown
     (drop (length ([]::history))
        (snd (Shutdown sdk_trace_shutdown_fails
                \<lparr>TracerProvider = Some tp_ex, MeterProvider = Some mp_ex\<rparr>
                context_Background []))) =
     [Call_TracerProvider_Shutdown tp_ex context_Background
        (Some (errorString ''trace shutdown failed'')),
      Call_MeterProvider_Shutdown mp_ex context_Background None]"
proof -
  let ?p = "\<lparr>TracerProvider = Some tp_ex, MeterProvider = Some mp_ex\<rparr>"
  have a: "TracerProvider ?p = Some tp_ex" and b: "MeterProvider ?p = Some mp_ex"
    by simp_all
  from Shutdown_attempts_both_in_order [OF a b, of "[]" sdk_trace_shutdown_fails context_Background]
  show ?thesis by (simp add: sdk_trace_shutdown_fails_def sdk_ok_def Let_def)
qed


subsection \<open>newResource\<close>

text \<open>
  C8. For every configuration that carries a pre-built resource descriptor, newResource
  returns that descriptor and leaves the history as it was: no call of
  \<^verbatim>\<open>resource.New\<close> or \<^verbatim>\<open>resource.Default\<close>, so no detector runs.
\<close>

theorem newResource_returns_configured_resource:
  assumes "resource cfg = Some r"
  shows "newResource k cfg h = (Some r, h)"
  using assms by (simp add: newResource_def)

theorem newResource_returns_configured_resource_witness:
  "newResource sdk_detect_fails (cfg_ex\<lparr>resource := Some (Resource [KeyValue ''k'' ''v''])\<rparr>)
     [Call_otel_Handle (errorString ''earlier'')] =
   (Some (Resource [KeyValue ''k'' ''v'']), [Call_otel_Handle (errorString ''earlier'')])"
proof -
  have a: "resource (cfg_ex\<lparr>resource := Some (Resource [KeyValue ''k'' ''v''])\<rparr>) =
             Some (Resource [KeyValue ''k'' ''v''])"
    by simp
  from newResource_returns_configured_resource [OF a] show ?thesis .
qed

subsection \<open>NewOpenTelemetryProvider\<close>

text \<open>
  C2. For every configuration in which enableTracing and enableMetrics are both false,
  NewOpenTelemetryProvider returns a nil handle pair and a nil error, whatever the other
  fields hold, and makes no external call.
\<close>

theorem both_toggles_off_returns_nil:
  assumes "\<not> enableTracing (newConfig opts)" and "\<not> enableMetrics (newConfig opts)"
  shows "NewOpenTelemetryProvider k newConfig opts h = ((None, None), h)"
  using assms by (simp add: NewOpenTelemetryProvider_def)

theorem both_toggles_off_returns_nil_witness:
  "NewOpenTelemetryProvider sdk_exporters_fail
     (newConfig_fixed (cfg_override\<lparr>enableTracing := False, enableMetrics := False\<rparr>)) [] [] =
   ((None, None), [])"
proof -
  let ?nc = "newConfig_fixed (cfg_override\<lparr>enableTracing := False, enableMetrics := False\<rparr>)"
  have a: "\<not> enableTracing (?nc [])" and b: "\<not> enableMetrics (?nc [])"
    by (simp_all add: newConfig_fixed_def)
  from both_toggles_off_returns_nil [where newConfig = ?nc and opts = "[]", OF a b]
  show ?thesis .
qed

text \<open>
  C3. For every configuration and every run of NewOpenTelemetryProvider: if the run
  contains a failed construction of the trace exporter, the result is a nil handle pair
  with the error \<^verbatim>\<open>failed to create otlp trace exporter: \<close> followed by the text of the
  exporter's error; if it contains a failed construction of the metric exporter, the
  result is a nil handle pair with the error \<^verbatim>\<open>failed to create otlp metric exporter: \<close>
  followed by the text of that error. No handle pair is returned in either case.
\<close>

theorem exporter_failure_returns_nil_and_error:
  assumes run: "NewOpenTelemetryProvider k newConfig opts h = ((p, err), h')"
  shows "(Call_otlptrace_New ctx c x (Some e) \<in> set (drop (length h) h') \<longrightarrow>
            p = None \<and>
            err = Some (errorString (''failed to create otlp trace exporter: '' @ Error e))) \<and>
         (Call_otlpmetricgrpc_New ctx' mos y (Some e') \<in> set (drop (length h) h') \<longrightarrow>
            p = None \<and>
            err = Some (errorString (''failed to create otlp metric exporter: '' @ Error e')))"
proof (cases "enableTracing (newConfig opts) \<or> enableMetrics (newConfig opts)")
  case False
  with run show ?thesis by (simp add: NewOpenTelemetryProvider_def)
next
  case True
  with run show ?thesis
  proof (cases rule: run_cases)
    case (trace_failed res revs x0 e0)
    then show ?thesis
      using resource_events_only [of revs] by (simp add: fmt_Errorf_def)
  next
    case (metric_failed res revs tpo tevs y0 e0)
    then show ?thesis
      using resource_events_only [of revs] tracing_done_events [of "newConfig opts" res tpo tevs]
      by (simp add: fmt_Errorf_def)
  next
    case (succeeded res revs tpo tevs mpo mevs)
    then show ?thesis
      using resource_events_only [of revs] tracing_done_events [of "newConfig opts" res tpo tevs]
        metrics_done_events [of "newConfig opts" res mpo mevs]
      by simp
  qed
qed

lemma run_ex_trace_exporter_fails:
  "NewOpenTelemetryProvider sdk_exporters_fail (newConfig_fixed cfg_ex) [] [] =
     ((None, Some (errorString ''failed to create otlp trace exporter: bad endpoint'')),
      [Call_resource_New context_Background (detect_opts cfg_ex)
         (Some (Resource [KeyValue ''host.name'' ''h1''])) None,
       Call_otlptrace_New context_TODO
         (otlptracegrpc_NewClient
            [otlptracegrpc_WithEndpoint ''localhost:4317'', otlptracegrpc_WithInsecure])
         None (Some (errorString ''bad endpoint''))])"
  by (simp add: model_defs example_defs)

lemma run_ex_metric_exporter_fails:
  "NewOpenTelemetryProvider sdk_metric_exporter_fails (newConfig_fixed cfg_override) [] [] =
     ((None, Some (errorString ''failed to create otlp metric exporter: bad endpoint'')),
      [Call_resource_New context_Background (detect_opts cfg_ex)
         (Some (Resource [KeyValue ''host.name'' ''h1''])) None,
       Call_otlpmetricgrpc_New context_Background
         [otlpmetricgrpc_WithEndpoint ''localhost:4317'', otlpmetricgrpc_WithInsecure]
         None (Some (errorString ''bad endpoint''))])"
  by (simp add: model_defs example_defs)

theorem exporter_failure_returns_nil_and_error_witness:
  "fst (NewOpenTelemetryProvider sdk_exporters_fail (newConfig_fixed cfg_ex) [] []) =
     (None, Some (errorString ''failed to create otlp trace exporter: bad endpoint'')) \<and>
   fst (NewOpenTelemetryProvider sdk_metric_exporter_fails (newConfig_fixed cfg_override) [] []) =
     (None, Some (errorString ''failed to create otlp metric exporter: bad endpoint''))"
proof -
  let ?A = "NewOpenTelemetryProvider sdk_exporters_fail (newConfig_fixed cfg_ex) [] []"
  let ?B = "NewOpenTelemetryProvider sdk_metric_exporter_fails (newConfig_fixed cfg_override) [] []"
  have runA: "?A = ((fst (fst ?A), snd (fst ?A)), snd ?A)"
    and runB: "?B = ((fst (fst ?B), snd (fst ?B)), snd ?B)"
    by simp_all
  have evA: "Call_otlptrace_New context_TODO
      (otlptracegrpc_NewClient
         [otlptracegrpc_WithEndpoint ''localhost:4317'', otlptracegrpc_WithInsecure])
      None (Some (errorString ''bad endpoint'')) \<in> set (drop (length ([]::history)) (snd ?A))"
    by (simp add: run_ex_trace_exporter_fails)
  have evB: "Call_otlpmetricgrpc_New context_Background
      [otlpmetricgrpc_WithEndpoint ''localhost:4317'', otlpmetricgrpc_WithInsecure]
      None (Some (errorString ''bad endpoint'')) \<in> set (drop (length ([]::history)) (snd ?B))"
    by (simp add: run_ex_metric_exporter_fails)
  from exporter_failure_returns_nil_and_error [OF runA] evA
  have "fst ?A = (None, Some (errorString ''failed to create otlp trace exporter: bad endpoint''))"
    by (simp add: prod_eq_iff)
  moreover from exporter_failure_returns_nil_and_error [OF runB] evB
  have "fst ?B = (None, Some (errorString ''failed to create otlp metric exporter: bad endpoint''))"
    by (simp add: prod_eq_iff)
  ultimately show ?thesis by simp
qed






text \<open>
  C5. The claim: for every configuration with enableTracing true and an override trace
  provider, NewOpenTelemetryProvider returns that override as the trace handle of the
  result, and constructs no trace exporter.

  At this input the override is supplied, metrics are enabled without an override and the
  metric exporter's construction fails: the early return of line 134 gives a nil handle
  pair, so no trace handle is returned at all.
\<close>

theorem override_run_returns_nil_pair:
  "enableTracing (newConfig_fixed cfg_override []) \<and>
   sdkTracerProvider (newConfig_fixed cfg_override []) = Some tp_ex \<and>
   fst (NewOpenTelemetryProvider sdk_metric_exporter_fails (newConfig_fixed cfg_override) [] []) =
     (None, Some (errorString ''failed to create otlp metric exporter: bad endpoint''))"
  by (simp add: model_defs example_defs)

text \<open>
  C5, amended. For every configuration with enableTracing true and an override trace
  provider, a run of NewOpenTelemetryProvider constructs no trace exporter. If the metric
  exporter's construction fails in the run, the result is a nil handle pair with the
  metric exporter error; and a run ends in one of two ways only: a handle pair whose
  trace handle is that override, with a nil error, or that failure.
\<close>

theorem override_tracer_provider_used:
  assumes tr: "enableTracing (newConfig opts)"
    and ov: "sdkTracerProvider (newConfig opts) = Some tp"
    and run: "NewOpenTelemetryProvider k newConfig opts h = ((r, err), h')"
  shows "Call_otlptrace_New ctx c x e \<notin> set (drop (length h) h') \<and>
         ((\<exists>p. r = Some p \<and> TracerProvider p = Some tp \<and> err = None) \<or>
          (\<exists>y e'. r = None \<and>
             err = Some (fmt_Errorf ''failed to create otlp metric exporter: '' e') \<and>
             Call_otlpmetricgrpc_New context_Background (metricsClientOpts (newConfig opts))
               y (Some e') \<in> set (drop (length h) h'))) \<and>
         (Call_otlpmetricgrpc_New ctx' mos y0 (Some e0) \<in> set (drop (length h) h') \<longrightarrow>
            r = None \<and>
            err = Some (fmt_Errorf ''failed to create otlp metric exporter: '' e0))"
proof -
  from tr have on: "enableTracing (newConfig opts) \<or> enableMetrics (newConfig opts)" ..
  from run on show ?thesis
  proof (cases rule: run_cases)
    case (trace_failed res revs x1 e1)
    with ov show ?thesis by simp
  next
    case (metric_failed res revs tpo tevs y1 e1)
    from metric_failed(3) tr ov have "tevs = []"
      by (simp add: tracing_done_def)
    with metric_failed show ?thesis
      using resource_events_only [of revs] by auto
  next
    case (succeeded res revs tpo tevs mpo mevs)
    from succeeded(3) tr ov have "tevs = []" "tpo = Some tp"
      by (simp_all add: tracing_done_def)
    with succeeded show ?thesis
      using resource_events_only [of revs]
        metrics_done_events [of "newConfig opts" res mpo mevs]
      by auto
  qed
qed

theorem override_tracer_provider_used_witness:
  "Call_otlptrace_New context_TODO
     (otlptracegrpc_NewClient (traceClientOpts cfg_override)) None
     (Some (errorString ''bad endpoint''))
     \<notin> set (drop (length ([]::history))
          (snd (NewOpenTelemetryProvider sdk_exporters_fail
             (newConfig_fixed (cfg_override\<lparr>enableMetrics := False\<rparr>)) [] []))) \<and>
   map_option TracerProvider
     (fst (fst (NewOpenTelemetryProvider sdk_exporters_fail
        (newConfig_fixed (cfg_override\<lparr>enableMetrics := False\<rparr>)) [] []))) =
     Some (Some tp_ex) \<and>
   snd (fst (NewOpenTelemetryProvider sdk_exporters_fail
      (newConfig_fixed (cfg_override\<lparr>enableMetrics := False\<rparr>)) [] [])) = None \<and>
   fst (fst (NewOpenTelemetryProvider sdk_metric_exporter_fails
      (newConfig_fixed cfg_override) [] [])) = None \<and>
   snd (fst (NewOpenTelemetryProvider sdk_metric_exporter_fails
      (newConfig_fixed cfg_override) [] [])) =
     Some (fmt_Errorf ''failed to create otlp metric exporter: '' (errorString ''bad endpoint''))"
proof -
  let ?nc = "newConfig_fixed (cfg_override\<lparr>enableMetrics := False\<rparr>)"
  let ?R = "NewOpenTelemetryProvider sdk_exporters_fail ?nc [] []"
  let ?nd = "newConfig_fixed cfg_override"
  let ?S = "NewOpenTelemetryProvider sdk_metric_exporter_fails ?nd [] []"
  let ?mc = "[otlpmetricgrpc_WithEndpoint ''localhost:4317'', otlpmetricgrpc_WithInsecure]"
  have a: "enableTracing (?nc [])" and b: "sdkTracerProvider (?nc []) = Some tp_ex"
    and a': "enableTracing (?nd [])" and b': "sdkTracerProvider (?nd []) = Some tp_ex"
    by (simp_all add: example_defs)
  have r: "?R = ((fst (fst ?R), snd (fst ?R)), snd ?R)"
    and s: "?S = ((fst (fst ?S), snd (fst ?S)), snd ?S)"
    by simp_all
  have nn: "fst (fst ?R) \<noteq> None"
    by (simp add: model_defs example_defs)
  have ev: "Call_otlpmetricgrpc_New context_Background ?mc None
      (Some (errorString ''bad endpoint'')) \<in> set (drop (length ([]::history)) (snd ?S))"
    by (simp add: run_ex_metric_exporter_fails)
  from override_tracer_provider_used [where newConfig = ?nc and opts = "[]", OF a b r,
      of context_TODO "otlptracegrpc_NewClient (traceClientOpts cfg_override)" None
        "Some (errorString ''bad endpoint'')"] nn
  have first: "Call_otlptrace_New context_TODO
     (otlptracegrpc_NewClient (traceClientOpts cfg_override)) None
     (Some (errorString ''bad endpoint'')) \<notin> set (drop (length ([]::history)) (snd ?R)) \<and>
     map_option TracerProvider (fst (fst ?R)) = Some (Some tp_ex) \<and> snd (fst ?R) = None"
    by auto
  from override_tracer_provider_used [where newConfig = ?nd and opts = "[]", OF a' b' s,
      where ctx' = context_Background and mos = ?mc and ?y0.0 = None
        and ?e0.0 = "errorString ''bad endpoint''"] ev
  have second: "fst (fst ?S) = None \<and>
     snd (fst ?S) =
       Some (fmt_Errorf ''failed to create otlp metric exporter: '' (errorString ''bad endpoint''))"
    by blast
  from first second show ?thesis by blast
qed

text \<open>
  C10. For every run of NewOpenTelemetryProvider that returns a handle pair, the error is
  nil, the pair's trace provider is set exactly when enableTracing is true, and its
  meter provider is set exactly when enableMetrics is true.
\<close>

theorem handles_follow_toggles:
  assumes run: "NewOpenTelemetryProvider k newConfig opts h = ((Some p, err), h')"
  shows "err = None \<and>
         (TracerProvider p \<noteq> None) = enableTracing (newConfig opts) \<and>
         (MeterProvider p \<noteq> None) = enableMetrics (newConfig opts)"
proof (cases "enableTracing (newConfig opts) \<or> enableMetrics (newConfig opts)")
  case False
  with run show ?thesis by (simp add: NewOpenTelemetryProvider_def)
next
  case True
  with run show ?thesis
  proof (cases rule: run_cases)
    case (trace_failed res revs x0 e0)
    then show ?thesis by simp
  next
    case (metric_failed res revs tpo tevs y0 e0)
    then show ?thesis by simp
  next
    case (succeeded res revs tpo tevs mpo mevs)
    then show ?thesis
      by (auto simp add: tracing_done_def metrics_done_def split: if_splits)
  qed
qed

lemma run_ex_tracing_only:
  "NewOpenTelemetryProvider sdk_ok (newConfig_fixed (cfg_ex\<lparr>enableMetrics := False\<rparr>)) [] [] =
     ((Some \<lparr>TracerProvider = Some (sdktrace_NewTracerProvider
                [sdktrace_WithSampler (Sampler ''always_on''),
                 sdktrace_WithResource (Some (Resource [KeyValue ''host.name'' ''h1''])),
                 sdktrace_WithSpanProcessor (sdktrace_NewBatchSpanProcessor
                   (Some (TraceExporter (otlptracegrpc_NewClient
                      [otlptracegrpc_WithEndpoint ''localhost:4317'',
                       otlptracegrpc_WithInsecure]))))]),
              MeterProvider = None\<rparr>, None),
      [Call_resource_New context_Background (detect_opts cfg_ex)
         (Some (Resource [KeyValue ''host.name'' ''h1''])) None,
       Call_otlptrace_New context_TODO
         (otlptracegrpc_NewClient
            [otlptracegrpc_WithEndpoint ''localhost:4317'', otlptracegrpc_WithInsecure])
         (Some (TraceExporter (otlptracegrpc_NewClient
            [otlptracegrpc_WithEndpoint ''localhost:4317'', otlptracegrpc_WithInsecure])))
         None])"
  by (simp add: model_defs example_defs)

theorem handles_follow_toggles_witness:
  "(TracerProvider \<lparr>TracerProvider = Some (sdktrace_NewTracerProvider
                [sdktrace_WithSampler (Sampler ''always_on''),
                 sdktrace_WithResource (Some (Resource [KeyValue ''host.name'' ''h1''])),
                 sdktrace_WithSpanProcessor (sdktrace_NewBatchSpanProcessor
                   (Some (TraceExporter (otlptracegrpc_NewClient
                      [otlptracegrpc_WithEndpoint ''localhost:4317'',
                       otlptracegrpc_WithInsecure]))))]),
              MeterProvider = None\<rparr> \<noteq> None) =
     enableTracing (newConfig_fixed (cfg_ex\<lparr>enableMetrics := False\<rparr>) []) \<and>
   (MeterProvider \<lparr>TracerProvider = Some (sdktrace_NewTracerProvider
                [sdktrace_WithSampler (Sampler ''always_on''),
                 sdktrace_WithResource (Some (Resource [KeyValue ''host.name'' ''h1''])),
                 sdktrace_WithSpanProcessor (sdktrace_NewBatchSpanProcessor
                   (Some (TraceExporter (otlptracegrpc_NewClient
                      [otlptracegrpc_WithEndpoint ''localhost:4317'',
                       otlptracegrpc_WithInsecure]))))]),
              MeterProvider = None\<rparr> \<noteq> None) =
     enableMetrics (newConfig_fixed (cfg_ex\<lparr>enableMetrics := False\<rparr>) [])"
  using handles_follow_toggles [OF run_ex_tracing_only] by blast


subsection \<open>Resource detection\<close>

text \<open>
  C9. For every configuration without a pre-built resource descriptor, when
  \<^verbatim>\<open>resource.New\<close> returns an error, newResource returns what \<^verbatim>\<open>resource.Default\<close>
  returns, and not the error. And for every run of NewOpenTelemetryProvider in which
  resource detection failed, either a handle pair is returned with a nil error, or the
  error returned is the trace exporter error or the metric exporter error of an exporter
  construction that failed in this run: the detection failure is never the reason
  initialization fails and never reaches the caller.
\<close>

theorem resource_detection_failure_recovered:
  "(resource cfg = None \<and>
    snd (resource_New k h context_Background (detect_opts cfg)) = Some e \<longrightarrow>
      newResource k cfg h =
        (let h1 = h @ [Call_resource_New context_Background (detect_opts cfg)
                         (fst (resource_New k h context_Background (detect_opts cfg))) (Some e)]
         in (resource_Default k h1, h1 @ [Call_resource_Default (resource_Default k h1)]))) \<and>
   (NewOpenTelemetryProvider k newConfig opts h0 = ((p, err), h') \<and>
    Call_resource_New ctx ros res (Some e0) \<in> set (drop (length h0) h') \<longrightarrow>
      ((\<exists>pr. p = Some pr) \<and> err = None) \<or>
      (\<exists>x e1. p = None \<and>
         err = Some (fmt_Errorf ''failed to create otlp trace exporter: '' e1) \<and>
         Call_otlptrace_New context_TODO
           (otlptracegrpc_NewClient (traceClientOpts (newConfig opts))) x (Some e1)
           \<in> set (drop (length h0) h')) \<or>
      (\<exists>y e1. p = None \<and>
         err = Some (fmt_Errorf ''failed to create otlp metric exporter: '' e1) \<and>
         Call_otlpmetricgrpc_New context_Background (metricsClientOpts (newConfig opts))
           y (Some e1) \<in> set (drop (length h0) h')))"
proof (intro conjI impI)
  assume "resource cfg = None \<and>
    snd (resource_New k h context_Background (detect_opts cfg)) = Some e"
  then show "newResource k cfg h =
        (let h1 = h @ [Call_resource_New context_Background (detect_opts cfg)
                         (fst (resource_New k h context_Background (detect_opts cfg))) (Some e)]
         in (resource_Default k h1, h1 @ [Call_resource_Default (resource_Default k h1)]))"
    by (auto simp add: newResource_def call_resource_New_def call_resource_Default_def Let_def
        split: prod.splits)
next
  assume a: "NewOpenTelemetryProvider k newConfig opts h0 = ((p, err), h') \<and>
    Call_resource_New ctx ros res (Some e0) \<in> set (drop (length h0) h')"
  then have run: "NewOpenTelemetryProvider k newConfig opts h0 = ((p, err), h')" ..
  have on: "enableTracing (newConfig opts) \<or> enableMetrics (newConfig opts)"
  proof (rule ccontr)
    assume "\<not> (enableTracing (newConfig opts) \<or> enableMetrics (newConfig opts))"
    with run have "h' = h0" by (simp add: NewOpenTelemetryProvider_def)
    with a show False by simp
  qed
  from run on show "((\<exists>pr. p = Some pr) \<and> err = None) \<or>
      (\<exists>x e1. p = None \<and>
         err = Some (fmt_Errorf ''failed to create otlp trace exporter: '' e1) \<and>
         Call_otlptrace_New context_TODO
           (otlptracegrpc_NewClient (traceClientOpts (newConfig opts))) x (Some e1)
           \<in> set (drop (length h0) h')) \<or>
      (\<exists>y e1. p = None \<and>
         err = Some (fmt_Errorf ''failed to create otlp metric exporter: '' e1) \<and>
         Call_otlpmetricgrpc_New context_Background (metricsClientOpts (newConfig opts))
           y (Some e1) \<in> set (drop (length h0) h'))"
  proof (cases rule: run_cases)
    case (trace_failed res0 revs x0 e1)
    then show ?thesis by auto
  next
    case (metric_failed res0 revs tpo tevs y0 e1)
    then show ?thesis by auto
  next
    case (succeeded res0 revs tpo tevs mpo mevs)
    then show ?thesis by simp
  qed
qed

lemma run_ex_detection_fails:
  "NewOpenTelemetryProvider sdk_detect_fails
     (newConfig_fixed (cfg_ex\<lparr>enableMetrics := False\<rparr>)) [] [] =
     ((Some \<lparr>TracerProvider = Some (sdktrace_NewTracerProvider
                [sdktrace_WithSampler (Sampler ''always_on''),
                 sdktrace_WithResource
                   (Some (Resource [KeyValue ''service.name'' ''unknown_service''])),
                 sdktrace_WithSpanProcessor (sdktrace_NewBatchSpanProcessor
                   (Some (TraceExporter (otlptracegrpc_NewClient
                      [otlptracegrpc_WithEndpoint ''localhost:4317'',
                       otlptracegrpc_WithInsecure]))))]),
              MeterProvider = None\<rparr>, None),
      [Call_resource_New context_Background (detect_opts cfg_ex)
         None (Some (errorString ''detector failed'')),
       Call_resource_Default (Some (Resource [KeyValue ''service.name'' ''unknown_service''])),
       Call_otlptrace_New context_TODO
         (otlptracegrpc_NewClient
            [otlptracegrpc_WithEndpoint ''localhost:4317'', otlptracegrpc_WithInsecure])
         (Some (TraceExporter (otlptracegrpc_NewClient
            [otlptracegrpc_WithEndpoint ''localhost:4317'', otlptracegrpc_WithInsecure])))
         None])"
  by (simp add: model_defs example_defs)

theorem resource_detection_failure_recovered_witness:
  "newResource sdk_detect_fails cfg_ex [] =
     (Some (Resource [KeyValue ''service.name'' ''unknown_service'']),
      [Call_resource_New context_Background (detect_opts cfg_ex)
         None (Some (errorString ''detector failed'')),
       Call_resource_Default
         (Some (Resource [KeyValue ''service.name'' ''unknown_service'']))]) \<and>
   fst (fst (NewOpenTelemetryProvider sdk_detect_fails
     (newConfig_fixed (cfg_ex\<lparr>enableMetrics := False\<rparr>)) [] [])) \<noteq> None \<and>
   snd (fst (NewOpenTelemetryProvider sdk_detect_fails
     (newConfig_fixed (cfg_ex\<lparr>enableMetrics := False\<rparr>)) [] [])) = None"
proof -
  let ?nc = "newConfig_fixed (cfg_ex\<lparr>enableMetrics := False\<rparr>)"
  let ?R = "NewOpenTelemetryProvider sdk_detect_fails ?nc [] []"
  let ?e = "errorString ''detector failed''"
  have a: "resource cfg_ex = None \<and>
      snd (resource_New sdk_detect_fails [] context_Background (detect_opts cfg_ex)) = Some ?e"
    by (simp add: example_defs)
  have b: "?R = ((fst (fst ?R), snd (fst ?R)), snd ?R) \<and>
      Call_resource_New context_Background (detect_opts cfg_ex) None (Some ?e)
        \<in> set (drop (length ([]::history)) (snd ?R))"
    by (simp add: run_ex_detection_fails)
  have h: "snd ?R =
      [Call_resource_New context_Background (detect_opts cfg_ex) None (Some ?e),
       Call_resource_Default (Some (Resource [KeyValue ''service.name'' ''unknown_service''])),
       Call_otlptrace_New context_TODO
         (otlptracegrpc_NewClient
            [otlptracegrpc_WithEndpoint ''localhost:4317'', otlptracegrpc_WithInsecure])
         (Some (TraceExporter (otlptracegrpc_NewClient
            [otlptracegrpc_WithEndpoint ''localhost:4317'', otlptracegrpc_WithInsecure])))
         None]"
    by (simp add: run_ex_detection_fails)
  note t = resource_detection_failure_recovered [where cfg = cfg_ex and k = sdk_detect_fails
      and h = "[]" and e = ?e and newConfig = ?nc and opts = "[]" and ?h0.0 = "[]"
      and p = "fst (fst ?R)" and err = "snd (fst ?R)" and h' = "snd ?R"
      and ctx = context_Background and ros = "detect_opts cfg_ex" and res = None and ?e0.0 = ?e]
  from t a have "newResource sdk_detect_fails cfg_ex [] =
     (Some (Resource [KeyValue ''service.name'' ''unknown_service'']),
      [Call_resource_New context_Background (detect_opts cfg_ex) None (Some ?e),
       Call_resource_Default
         (Some (Resource [KeyValue ''service.name'' ''unknown_service'']))])"
    by (simp add: example_defs Let_def)
  moreover from t b h have "fst (fst ?R) \<noteq> None \<and> snd (fst ?R) = None"
    by auto
  ultimately show ?thesis by simp
qed


end
